theory Spec2Isabelle
  imports Main
begin

section \<open>Python values and exceptions\<close>

text \<open>
  The module \<^verbatim>\<open>carsim.py\<close> drives an external worker process over its standard
  input and output. Exceptions are values: every function that can raise returns
  \<open>exn + 'a\<close>, with \<open>Inl\<close> for the exception. Leading underscores of the Python names
  (\<^verbatim>\<open>_restart\<close>, \<^verbatim>\<open>_recv\<close>, ...) are dropped, since an Isabelle name cannot start
  with one.
\<close>

datatype exn =
    BrokenPipeError
  | OSError
  | TimeoutExpired
  | AssertionError string
  | SimulatorError string
  | SimulationError string
  | ValueError
  | TypeError
  | IndexError
  | OverflowError
  | AttributeError

text \<open>
  A double is kept as sign, mantissa and binary exponent: \<open>Finite neg m e\<close> stands for
  \<open>(-1)^neg * m * 2^e\<close>. Every IEEE binary64 value is of this form (with
  \<open>m < 2^53\<close> and \<open>-1074 \<le> e \<le> 971\<close>); the type has more values than that, and
  what is proved for all of them holds for the doubles.
\<close>

datatype npdouble = Finite bool nat int | Infinity bool | NaN

text \<open>
  The arguments of the public functions are dynamically typed. \<open>PyInt\<close> is \<^verbatim>\<open>int\<close>,
  \<open>PyFloat\<close> is \<^verbatim>\<open>float\<close>, \<open>NpDouble\<close> is \<^verbatim>\<open>numpy.double\<close>, \<open>PySeq\<close> is a sized
  iterable (list, tuple, array) given by its items, \<open>PyStr\<close> is a string, and
  \<open>PyOther\<close> is any object that is neither a number of these three types nor sized
  (\<^verbatim>\<open>None\<close>, \<^verbatim>\<open>True\<close>, ...).
\<close>

datatype pyval =
    PyInt int
  | PyFloat npdouble
  | NpDouble npdouble
  | PySeq "pyval list"
  | PyStr string
  | PyOther

text \<open>What a call returns: \<^verbatim>\<open>None\<close>, or a numpy matrix given by its rows.\<close>

datatype pyresult = PyNone | Matrix "npdouble list list"

definition bindE :: "exn + 'a \<Rightarrow> ('a \<Rightarrow> exn + 'b) \<Rightarrow> exn + 'b" where
  "bindE m f = (case m of Inl e \<Rightarrow> Inl e | Inr x \<Rightarrow> f x)"

fun mapE :: "('a \<Rightarrow> exn + 'b) \<Rightarrow> 'a list \<Rightarrow> exn + 'b list" where
  "mapE f [] = Inr []"
| "mapE f (x # xs) =
     (case f x of
        Inl e \<Rightarrow> Inl e
      | Inr y \<Rightarrow> (case mapE f xs of Inl e \<Rightarrow> Inl e | Inr ys \<Rightarrow> Inr (y # ys)))"


section \<open>Strings\<close>

text \<open>
  \<^verbatim>\<open>str.rstrip()\<close>, \<^verbatim>\<open>str.strip()\<close>, \<^verbatim>\<open>str.startswith\<close>, \<^verbatim>\<open>str.split(' ')\<close> and
  \<^verbatim>\<open>str.split()\<close>, on ASCII text. The whitespace characters are those of
  \<^verbatim>\<open>str.isspace\<close> below code point 128.
\<close>

definition isspace :: "char \<Rightarrow> bool" where
  "isspace c = (of_char c \<in> {9, 10, 11, 12, 13, 28, 29, 30, 31, 32 :: nat})"

definition lstrip :: "string \<Rightarrow> string" where
  "lstrip s = dropWhile isspace s"

definition rstrip :: "string \<Rightarrow> string" where
  "rstrip s = rev (dropWhile isspace (rev s))"

definition strip :: "string \<Rightarrow> string" where
  "strip s = lstrip (rstrip s)"

definition startswith :: "string \<Rightarrow> string \<Rightarrow> bool" where
  "startswith s p = (take (length p) s = p)"

text \<open>\<^verbatim>\<open>s.split(' ')\<close>: every single space separates, so there are empty fields.\<close>

fun split_sp :: "string \<Rightarrow> string list" where
  "split_sp [] = [[]]"
| "split_sp (c # cs) =
     (if c = CHR '' '' then [] # split_sp cs
      else (case split_sp cs of [] \<Rightarrow> [[c]] | t # ts \<Rightarrow> (c # t) # ts))"

text \<open>\<^verbatim>\<open>s.split()\<close>: runs of whitespace separate, and no field is empty.\<close>

fun split_ws :: "string \<Rightarrow> string list" where
  "split_ws [] = []"
| "split_ws (c # cs) =
     (if isspace c then split_ws cs
      else (case cs of
              [] \<Rightarrow> [[c]]
            | d # ds \<Rightarrow>
                if isspace d then [c] # split_ws cs
                else (case split_ws cs of [] \<Rightarrow> [[c]] | t # ts \<Rightarrow> (c # t) # ts)))"

definition isdigit :: "char \<Rightarrow> bool" where
  "isdigit c = (48 \<le> (of_char c :: nat) \<and> (of_char c :: nat) \<le> 57)"

definition digit_val :: "char \<Rightarrow> nat" where
  "digit_val c = of_char c - 48"

definition digit_char :: "nat \<Rightarrow> char" where
  "digit_char d = char_of (48 + d)"

text \<open>\<^verbatim>\<open>str(n)\<close> and \<^verbatim>\<open>'%d' % n\<close> for a natural number.\<close>

fun str_nat :: "nat \<Rightarrow> string" where
  "str_nat n = (if n < 10 then [digit_char n] else str_nat (n div 10) @ [digit_char (n mod 10)])"

declare str_nat.simps [simp del]

definition zfill :: "nat \<Rightarrow> string \<Rightarrow> string" where
  "zfill k s = replicate (k - length s) (CHR ''0'') @ s"

text \<open>The value of a string of decimal digits, most significant first.\<close>

definition digits_val :: "string \<Rightarrow> nat" where
  "digits_val ds = foldl (\<lambda>a c. 10 * a + digit_val c) 0 ds"

text \<open>
  Python's \<^verbatim>\<open>digitpart\<close>: digits with single underscores allowed between two digits.
  \<open>digitpart s\<close> is the digits without the underscores, or \<open>None\<close> when \<open>s\<close> is not one.
\<close>

fun digitpart_ok :: "string \<Rightarrow> bool" where
  "digitpart_ok [] = False"
| "digitpart_ok [c] = isdigit c"
| "digitpart_ok (c # d # cs) =
     (isdigit c \<and> (if d = CHR ''_'' then digitpart_ok cs else digitpart_ok (d # cs)))"

definition digitpart :: "string \<Rightarrow> string option" where
  "digitpart s = (if digitpart_ok s then Some (filter isdigit s) else None)"


section \<open>Numbers on the wire\<close>

subsection \<open>Rounding to a double\<close>

definition round_half_even :: "nat \<Rightarrow> nat \<Rightarrow> nat" where
  "round_half_even a b =
     (let q = a div b; r = a mod b
      in if 2 * r < b then q
         else if b < 2 * r then Suc q
         else if even q then q else Suc q)"

fun bitlen :: "nat \<Rightarrow> nat" where
  "bitlen n = (if n = 0 then 0 else Suc (bitlen (n div 2)))"

declare bitlen.simps [simp del]

text \<open>
  The double nearest to the positive rational \<open>a / b\<close> (ties to even), as mantissa
  and exponent; \<open>None\<close> when the rounded value is beyond the largest double.
\<close>

definition nearest_double :: "nat \<Rightarrow> nat \<Rightarrow> (nat \<times> int) option" where
  "nearest_double a b =
     (if a = 0 then Some (0, 0)
      else
        let e0 = int (bitlen a) - int (bitlen b);
            e1 = (if (if 0 \<le> e0 then b * 2 ^ nat e0 \<le> a else b \<le> a * 2 ^ nat (- e0))
                  then e0 else e0 - 1);
            p = max (e1 - 52) (- 1074);
            m = (if 0 \<le> p then round_half_even a (b * 2 ^ nat p)
                 else round_half_even (a * 2 ^ nat (- p)) b);
            m' = (if m = 2 ^ 53 then 2 ^ 52 else m);
            p' = (if m = 2 ^ 53 then p + 1 else p)
        in if 971 < p' then None else Some (m', p'))"

text \<open>\<^verbatim>\<open>float(n)\<close> for an \<^verbatim>\<open>int\<close>: too large an integer raises \<^verbatim>\<open>OverflowError\<close>.\<close>

definition float_of_int :: "int \<Rightarrow> exn + npdouble" where
  "float_of_int n =
     (case nearest_double (nat \<bar>n\<bar>) 1 of
        None \<Rightarrow> Inl OverflowError
      | Some (m, e) \<Rightarrow> Inr (Finite (n < 0) m e))"


subsection \<open>The conversion \<^verbatim>\<open>%f\<close>\<close>

text \<open>
  \<^verbatim>\<open>'%f' % x\<close> writes a finite double in fixed notation with six digits after the
  point, correctly rounded (ties to even) from the exact value; the sign of a negative
  zero is kept. An infinity is written \<^verbatim>\<open>inf\<close> or \<^verbatim>\<open>-inf\<close>, a NaN \<^verbatim>\<open>nan\<close>.
\<close>

definition micro :: "nat \<Rightarrow> int \<Rightarrow> nat" where
  "micro m e =
     (if 0 \<le> e then m * 2 ^ nat e * 1000000
      else round_half_even (m * 1000000) (2 ^ nat (- e)))"

definition fixed6 :: "bool \<Rightarrow> nat \<Rightarrow> string" where
  "fixed6 neg n =
     (if neg then ''-'' else '''') @ str_nat (n div 1000000) @ ''.''
       @ zfill 6 (str_nat (n mod 1000000))"

fun format_double :: "npdouble \<Rightarrow> string" where
  "format_double (Finite neg m e) = fixed6 neg (micro m e)"
| "format_double (Infinity neg) = (if neg then ''-inf'' else ''inf'')"
| "format_double NaN = ''nan''"

text \<open>\<^verbatim>\<open>'%f' % v\<close> for any object: an \<^verbatim>\<open>int\<close> is converted by \<^verbatim>\<open>float(v)\<close> first.\<close>

fun format_f :: "pyval \<Rightarrow> exn + string" where
  "format_f (PyInt n) = bindE (float_of_int n) (\<lambda>d. Inr (format_double d))"
| "format_f (PyFloat d) = Inr (format_double d)"
| "format_f (NpDouble d) = Inr (format_double d)"
| "format_f (PySeq xs) = Inl TypeError"
| "format_f (PyStr s) = Inl TypeError"
| "format_f PyOther = Inl TypeError"


subsection \<open>Reading numbers: \<^verbatim>\<open>int(s)\<close> and \<^verbatim>\<open>np.double(s)\<close>\<close>

definition split_sign :: "string \<Rightarrow> bool \<times> string" where
  "split_sign s =
     (case s of
        [] \<Rightarrow> (False, [])
      | c # cs \<Rightarrow>
          if c = CHR ''-'' then (True, cs)
          else if c = CHR ''+'' then (False, cs)
          else (False, s))"

text \<open>
  \<^verbatim>\<open>int(s)\<close> in base 10: surrounding whitespace, an optional sign, a \<^verbatim>\<open>digitpart\<close>.
\<close>

definition int_of_str :: "string \<Rightarrow> exn + int" where
  "int_of_str s =
     (let (neg, body) = split_sign (strip s)
      in case digitpart body of
           None \<Rightarrow> Inl ValueError
         | Some ds \<Rightarrow> Inr (if neg then - int (digits_val ds) else int (digits_val ds)))"

definition lower :: "char \<Rightarrow> char" where
  "lower c =
     (if 65 \<le> (of_char c :: nat) \<and> (of_char c :: nat) \<le> 90
      then char_of (of_char c + 32 :: nat) else c)"

definition isdigit_us :: "char \<Rightarrow> bool" where
  "isdigit_us c = (isdigit c \<or> c = CHR ''_'')"

text \<open>
  The exact value of a \<^verbatim>\<open>floatnumber\<close> of Python's grammar for \<^verbatim>\<open>float(s)\<close>,
  \<^verbatim>\<open>[digitpart] "." digitpart | digitpart ["."]\<close> and then an optional exponent
  \<^verbatim>\<open>("e" | "E") [sign] digitpart\<close>, as numerator and denominator.
\<close>

definition exponent_of :: "string \<Rightarrow> int option" where
  "exponent_of s =
     (case s of
        [] \<Rightarrow> Some 0
      | c # cs \<Rightarrow>
          if c = CHR ''e'' \<or> c = CHR ''E'' then
            (let (neg, body) = split_sign cs
             in case digitpart body of
                  None \<Rightarrow> None
                | Some ds \<Rightarrow> Some (if neg then - int (digits_val ds) else int (digits_val ds)))
          else None)"

definition floatnumber :: "string \<Rightarrow> (nat \<times> nat) option" where
  "floatnumber s =
     (let ip = takeWhile isdigit_us s;
          r1 = dropWhile isdigit_us s;
          dot = (r1 \<noteq> [] \<and> hd r1 = CHR ''.'');
          r2 = (if dot then tl r1 else r1);
          fp = (if dot then takeWhile isdigit_us r2 else []);
          r3 = (if dot then dropWhile isdigit_us r2 else r2)
      in if ip = [] \<and> fp = [] then None
         else
           case (if ip = [] then Some [] else digitpart ip,
                 if fp = [] then Some [] else digitpart fp,
                 exponent_of r3) of
             (Some ids, Some fds, Some x) \<Rightarrow>
               (let n = digits_val (ids @ fds);
                    sh = x - int (length fds)
                in Some (if 0 \<le> sh then (n * 10 ^ nat sh, 1) else (n, 10 ^ nat (- sh))))
           | _ \<Rightarrow> None)"

text \<open>
  \<^verbatim>\<open>np.double(s)\<close> on a string is \<^verbatim>\<open>float(s)\<close>: surrounding whitespace, an optional
  sign, and then \<^verbatim>\<open>inf\<close>, \<^verbatim>\<open>infinity\<close> or \<^verbatim>\<open>nan\<close> in any case, or a \<^verbatim>\<open>floatnumber\<close>,
  rounded to the nearest double (to an infinity beyond the largest one).
\<close>

definition np_double :: "string \<Rightarrow> exn + npdouble" where
  "np_double s =
     (let (neg, body) = split_sign (strip s);
          low = map lower body
      in if low = ''inf'' \<or> low = ''infinity'' then Inr (Infinity neg)
         else if low = ''nan'' then Inr NaN
         else
           case floatnumber body of
             None \<Rightarrow> Inl ValueError
           | Some (a, b) \<Rightarrow>
               (case nearest_double a b of
                  None \<Rightarrow> Inr (Infinity neg)
                | Some (m, e) \<Rightarrow> Inr (Finite neg m e)))"


section \<open>The worker process and the operating system\<close>

text \<open>
  The worker is an external program; the model keeps of it what the module can see
  through \<^verbatim>\<open>subprocess.Popen\<close>. A process is its observable state together with its
  future behaviour, which is arbitrary: after how many flushes its input pipe breaks
  (\<open>breaks_after\<close>, \<open>None\<close> for never), the lines it will print (\<open>stdout_lines\<close>, as
  \<^verbatim>\<open>readline\<close> returns them, newline included), and how long it takes to exit once its
  input is closed (\<open>exits_within\<close>, \<open>None\<close> for never).
\<close>

record proc =
  argv :: "string list"
  running :: bool
  killed :: bool
  stdin_closed :: bool
  stdin_buffer :: string
  received :: string
  breaks_after :: "nat option"
  stdout_closed :: bool
  stdout_lines :: "string list"
  exits_within :: "nat option"

text \<open>
  The world holds every process started so far (the process started by the \<open>k\<close>-th
  call of \<^verbatim>\<open>Popen\<close> has identity \<open>k\<close>), what each further call of \<^verbatim>\<open>Popen\<close> will
  do (\<open>launch\<close>: \<open>None\<close> when the executable cannot be started), the random source
  of \<^verbatim>\<open>random.randint\<close>, and the number of hooks registered with \<^verbatim>\<open>atexit\<close>.
\<close>

record world =
  procs :: "nat \<Rightarrow> proc"
  popen_calls :: nat
  launch :: "nat \<Rightarrow> proc option"
  entropy :: "nat \<Rightarrow> nat"
  draws :: nat
  exit_hooks :: nat

definition set_proc :: "nat \<Rightarrow> proc \<Rightarrow> world \<Rightarrow> world" where
  "set_proc pid p w = w\<lparr>procs := (procs w)(pid := p)\<rparr>"


text \<open>Everything the module has written to a process, flushed or not.\<close>

definition written :: "proc \<Rightarrow> string" where
  "written p = received p @ stdin_buffer p"

definition randint :: "nat \<Rightarrow> nat \<Rightarrow> world \<Rightarrow> nat \<times> world" where
  "randint lo hi w =
     (lo + entropy w (draws w) mod (hi - lo + 1), w\<lparr>draws := Suc (draws w)\<rparr>)"

text \<open>
  \<^verbatim>\<open>Popen(args, stdin=PIPE, stdout=PIPE, universal_newlines=True)\<close>: raises
  \<^verbatim>\<open>OSError\<close> when the program cannot be started, and otherwise returns a running
  process with both pipes open.
\<close>

definition Popen :: "string list \<Rightarrow> world \<Rightarrow> (exn + nat) \<times> world" where
  "Popen args w =
     (let k = popen_calls w; w1 = w\<lparr>popen_calls := Suc k\<rparr>
      in case launch w k of
           None \<Rightarrow> (Inl OSError, w1)
         | Some p \<Rightarrow>
             (Inr k,
              set_proc k (p\<lparr>argv := args, running := True, killed := False, stdin_closed := False,
                            stdin_buffer := [], received := [], stdout_closed := False\<rparr>) w1))"

text \<open>
  \<^verbatim>\<open>fd.write(text)\<close> on the input pipe puts the text into the buffer;
  \<^verbatim>\<open>fd.flush()\<close> hands the buffer to the process and raises \<^verbatim>\<open>BrokenPipeError\<close>
  when the process no longer reads; \<^verbatim>\<open>fd.readline()\<close> on the output pipe returns
  the next line, and the empty string at the end of the stream. Each raises
  \<^verbatim>\<open>ValueError\<close> on a closed file.
\<close>

definition stdin_write :: "nat \<Rightarrow> string \<Rightarrow> world \<Rightarrow> (exn + unit) \<times> world" where
  "stdin_write pid text w =
     (let p = procs w pid
      in if stdin_closed p then (Inl ValueError, w)
         else (Inr (), set_proc pid (p\<lparr>stdin_buffer := stdin_buffer p @ text\<rparr>) w))"

definition deliver :: "proc \<Rightarrow> proc" where
  "deliver p = p\<lparr>received := received p @ stdin_buffer p, stdin_buffer := []\<rparr>"

definition stdin_flush :: "nat \<Rightarrow> world \<Rightarrow> (exn + unit) \<times> world" where
  "stdin_flush pid w =
     (let p = procs w pid
      in if stdin_closed p then (Inl ValueError, w)
         else if stdin_buffer p = [] then (Inr (), w)
         else
           case breaks_after p of
             None \<Rightarrow> (Inr (), set_proc pid (deliver p) w)
           | Some 0 \<Rightarrow> (Inl BrokenPipeError, w)
           | Some (Suc k) \<Rightarrow> (Inr (), set_proc pid ((deliver p)\<lparr>breaks_after := Some k\<rparr>) w))"

definition stdout_readline :: "nat \<Rightarrow> world \<Rightarrow> (exn + string) \<times> world" where
  "stdout_readline pid w =
     (let p = procs w pid
      in if stdout_closed p then (Inl ValueError, w)
         else
           case stdout_lines p of
             [] \<Rightarrow> (Inr [], w)
           | l # ls \<Rightarrow> (Inr l, set_proc pid (p\<lparr>stdout_lines := ls\<rparr>) w))"

text \<open>
  \<^verbatim>\<open>Popen.communicate(timeout=t)\<close> with no input: it closes the input pipe (an error
  of the last flush is ignored), reads the output to its end and waits for the process.
  It returns once the process has exited, and raises \<^verbatim>\<open>TimeoutExpired\<close> when that
  takes longer than \<open>t\<close>. On a process that has exited already it returns at once.
  \<^verbatim>\<open>Popen.kill()\<close> ends the process and never raises; \<open>killed\<close> records that the
  process ended that way.
\<close>

definition close_stdin :: "proc \<Rightarrow> proc" where
  "close_stdin p =
     (if stdin_closed p then p
      else (if breaks_after p = Some 0 then p else deliver p)\<lparr>stdin_closed := True\<rparr>)"

definition communicate :: "nat \<Rightarrow> nat \<Rightarrow> world \<Rightarrow> (exn + unit) \<times> world" where
  "communicate pid t w =
     (let p = close_stdin (procs w pid)
      in if \<not> running p then (Inr (), set_proc pid (p\<lparr>stdout_closed := True\<rparr>) w)
         else
           case exits_within p of
             None \<Rightarrow> (Inl TimeoutExpired, set_proc pid p w)
           | Some d \<Rightarrow>
               if d \<le> t
               then (Inr (), set_proc pid (p\<lparr>running := False, stdout_closed := True\<rparr>) w)
               else (Inl TimeoutExpired, set_proc pid (p\<lparr>exits_within := Some (d - t)\<rparr>) w))"

definition kill :: "nat \<Rightarrow> world \<Rightarrow> world" where
  "kill pid w = set_proc pid ((procs w pid)\<lparr>running := False, killed := True\<rparr>) w"


section \<open>The class \<^verbatim>\<open>Simulator\<close>\<close>

record simulator =
  worker :: "nat option"
  port :: nat

definition frown :: string where
  "frown = [CHR 0xE2, CHR 0x98, CHR 0xB9]"

subsection \<open>Starting, restarting and stopping the worker\<close>

definition shutdown :: "simulator \<Rightarrow> world \<Rightarrow> (exn + unit) \<times> world" where
  "shutdown s w =
     (case worker s of
        None \<Rightarrow> (Inl (AssertionError []), w)
      | Some pid \<Rightarrow>
          (case communicate pid 10 w of
             (Inl TimeoutExpired, w1) \<Rightarrow> (Inr (), kill pid w1)
           | r \<Rightarrow> r))"

definition restart :: "simulator \<Rightarrow> world \<Rightarrow> (exn + unit) \<times> simulator \<times> world" where
  "restart s w =
     (case (if worker s \<noteq> None then shutdown s w else (Inr (), w)) of
        (Inl e, w1) \<Rightarrow> (Inl e, s, w1)
      | (Inr u, w1) \<Rightarrow>
          (let (r, w2) = randint 1025 65535 w1;
               s1 = s\<lparr>port := r\<rparr>
           in case Popen [''./carsim'', str_nat r] w2 of
                (Inl OSError, w3) \<Rightarrow>
                  (Inl (SimulatorError
                     (''There was an unexpected error starting the simulator '' @ frown)),
                   s1, w3)
              | (Inl e, w3) \<Rightarrow> (Inl e, s1, w3)
              | (Inr pid, w3) \<Rightarrow> (Inr (), s1\<lparr>worker := Some pid\<rparr>, w3)))"

definition start_worker :: "simulator \<Rightarrow> world \<Rightarrow> (exn + unit) \<times> simulator \<times> world" where
  "start_worker s w =
     (case restart (s\<lparr>worker := None\<rparr>) w of
        (Inl e, s1, w1) \<Rightarrow> (Inl e, s1, w1)
      | (Inr u, s1, w1) \<Rightarrow> (Inr (), s1, w1\<lparr>exit_hooks := Suc (exit_hooks w1)\<rparr>))"

text \<open>\<^verbatim>\<open>Simulator()\<close>: the constructor, which the module runs once when it is loaded.\<close>

definition init :: "world \<Rightarrow> (exn + unit) \<times> simulator \<times> world" where
  "init w = start_worker \<lparr>worker = None, port = 0\<rparr> w"

text \<open>
  The decorator: the method is tried; on \<^verbatim>\<open>BrokenPipeError\<close>, and on nothing else,
  the worker is restarted and the method is called again with the same arguments.
\<close>

definition restart_on_broken_pipe ::
  "(simulator \<Rightarrow> world \<Rightarrow> (exn + 'a) \<times> simulator \<times> world)
    \<Rightarrow> simulator \<Rightarrow> world \<Rightarrow> (exn + 'a) \<times> simulator \<times> world" where
  "restart_on_broken_pipe m s w =
     (case m s w of
        (Inl BrokenPipeError, s1, w1) \<Rightarrow>
          (case restart s1 w1 of
             (Inl e, s2, w2) \<Rightarrow> (Inl e, s2, w2)
           | (Inr u, s2, w2) \<Rightarrow> m s2 w2)
      | r \<Rightarrow> r)"


subsection \<open>Threading the world through a method\<close>

definition bindS ::
  "(world \<Rightarrow> (exn + 'a) \<times> world) \<Rightarrow> ('a \<Rightarrow> world \<Rightarrow> (exn + 'b) \<times> world)
    \<Rightarrow> world \<Rightarrow> (exn + 'b) \<times> world" where
  "bindS m f w = (case m w of (Inl e, w1) \<Rightarrow> (Inl e, w1) | (Inr x, w1) \<Rightarrow> f x w1)"

definition liftE :: "exn + 'a \<Rightarrow> world \<Rightarrow> (exn + 'a) \<times> world" where
  "liftE r w = (r, w)"

text \<open>A method that does not assign to \<^verbatim>\<open>self\<close> returns it as it was.\<close>

definition keep_self ::
  "(world \<Rightarrow> (exn + 'a) \<times> world) \<Rightarrow> simulator \<Rightarrow> world
    \<Rightarrow> (exn + 'a) \<times> simulator \<times> world" where
  "keep_self m s w = (case m w of (r, w1) \<Rightarrow> (r, s, w1))"

text \<open>\<^verbatim>\<open>self._worker.stdin\<close> and \<^verbatim>\<open>self._worker.stdout\<close>, when there is a worker.\<close>

definition with_worker ::
  "simulator \<Rightarrow> (nat \<Rightarrow> world \<Rightarrow> (exn + 'a) \<times> world) \<Rightarrow> world \<Rightarrow> (exn + 'a) \<times> world" where
  "with_worker s f w = (case worker s of None \<Rightarrow> (Inl AttributeError, w) | Some pid \<Rightarrow> f pid w)"


subsection \<open>Checking the arguments\<close>

fun is_num :: "pyval \<Rightarrow> bool" where
  "is_num (PyInt n) = True"
| "is_num (PyFloat d) = True"
| "is_num (NpDouble d) = True"
| "is_num (PySeq xs) = False"
| "is_num (PyStr t) = False"
| "is_num PyOther = False"

fun has_len :: "pyval \<Rightarrow> bool" where
  "has_len (PySeq xs) = True"
| "has_len (PyStr t) = True"
| "has_len (PyInt n) = False"
| "has_len (PyFloat d) = False"
| "has_len (NpDouble d) = False"
| "has_len PyOther = False"

text \<open>The items of a sized iterable, in the order of iteration.\<close>

fun items :: "pyval \<Rightarrow> pyval list" where
  "items (PySeq xs) = xs"
| "items (PyStr t) = map (\<lambda>c. PyStr [c]) t"
| "items (PyInt n) = []"
| "items (PyFloat d) = []"
| "items (NpDouble d) = []"
| "items PyOther = []"

definition len :: "pyval \<Rightarrow> exn + nat" where
  "len v = (if has_len v then Inr (length (items v)) else Inl TypeError)"

definition getitem :: "pyval \<Rightarrow> nat \<Rightarrow> exn + pyval" where
  "getitem v i =
     (if \<not> has_len v then Inl TypeError
      else if i < length (items v) then Inr (items v ! i)
      else Inl IndexError)"

definition check_num :: "string \<Rightarrow> pyval \<Rightarrow> exn + unit" where
  "check_num label v =
     (if is_num v then Inr () else Inl (AssertionError (label @ '' should be a number'')))"

fun check_entries :: "string \<Rightarrow> nat \<Rightarrow> pyval list \<Rightarrow> exn + unit" where
  "check_entries label idx [] = Inr ()"
| "check_entries label idx (x # xs) =
     (case check_num (label @ ''['' @ str_nat idx @ '']'') x of
        Inl e \<Rightarrow> Inl e
      | Inr u \<Rightarrow> check_entries label (Suc idx) xs)"

definition check_nums :: "string \<Rightarrow> nat \<Rightarrow> pyval \<Rightarrow> exn + unit" where
  "check_nums label n v =
     (if \<not> has_len v
      then Inl (AssertionError (label @ '' should be a container (a list or an array)''))
      else if length (items v) \<noteq> n
      then Inl (AssertionError (label @ '' should have length '' @ str_nat n))
      else check_entries label 0 (items v))"

text \<open>
  Unpacking an entry of \<^verbatim>\<open>cars\<close> into five names: \<^verbatim>\<open>TypeError\<close> when the entry is
  not iterable, \<^verbatim>\<open>ValueError\<close> when it does not have five items.
\<close>

definition unpack5 :: "pyval \<Rightarrow> exn + pyval \<times> pyval \<times> pyval \<times> pyval \<times> pyval" where
  "unpack5 c =
     (if \<not> has_len c then Inl TypeError
      else case items c of
             [fw, us, ls, lw, rw] \<Rightarrow> Inr (fw, us, ls, lw, rw)
           | _ \<Rightarrow> Inl ValueError)"

definition check_car :: "nat \<Rightarrow> pyval \<Rightarrow> exn + unit" where
  "check_car idx c =
     bindE (unpack5 c) (\<lambda>(fw, us, ls, lw, rw).
     bindE (check_num (''frame_width of car '' @ str_nat idx) fw) (\<lambda>u.
     bindE (check_nums (''upper_shape of car '' @ str_nat idx) 5 us) (\<lambda>u.
     bindE (check_nums (''lower_shape of car '' @ str_nat idx) 5 ls) (\<lambda>u.
     bindE (check_nums (''left_wheel of car '' @ str_nat idx) 2 lw) (\<lambda>u.
     check_nums (''right_wheel of car '' @ str_nat idx) 2 rw)))))"

fun check_each :: "nat \<Rightarrow> pyval list \<Rightarrow> exn + unit" where
  "check_each idx [] = Inr ()"
| "check_each idx (c # cs) =
     (case check_car idx c of Inl e \<Rightarrow> Inl e | Inr u \<Rightarrow> check_each (Suc idx) cs)"

definition check_cars :: "pyval \<Rightarrow> exn + unit" where
  "check_cars cars =
     (if \<not> has_len cars then Inl (AssertionError ''cars should be a list'')
      else if \<not> 0 < length (items cars)
      then Inl (AssertionError ''cars should not be an empty list'')
      else if \<not> length (items cars) \<le> 100
      then Inl (AssertionError
        ''you have provided too many cars (use a number less or equal to 100)'')
      else check_each 0 (items cars))"


subsection \<open>The line protocol\<close>

text \<open>
  The format string of \<^verbatim>\<open>_car_spec\<close> is fifteen times \<^verbatim>\<open>" %f"\<close> and a newline. The
  tuple of operands is built first, by indexing, and then formatted from left to right.
\<close>

definition car_spec :: "pyval \<Rightarrow> pyval \<Rightarrow> pyval \<Rightarrow> pyval \<Rightarrow> pyval \<Rightarrow> exn + string" where
  "car_spec frame_width upper_shape lower_shape left_wheel right_wheel =
     bindE (mapE (\<lambda>(v, i). getitem v i)
              [(upper_shape, 0), (upper_shape, 1), (upper_shape, 2), (upper_shape, 3),
               (upper_shape, 4), (lower_shape, 0), (lower_shape, 1), (lower_shape, 2),
               (lower_shape, 3), (lower_shape, 4), (left_wheel, 0), (left_wheel, 1),
               (right_wheel, 0), (right_wheel, 1)]) (\<lambda>operands.
     bindE (mapE format_f (frame_width # operands)) (\<lambda>fields.
     Inr (concat (map (\<lambda>t. CHR '' '' # t) fields) @ [CHR 0x0A])))"

definition send :: "simulator \<Rightarrow> string \<Rightarrow> world \<Rightarrow> (exn + unit) \<times> world" where
  "send s cmd =
     with_worker s (\<lambda>pid. bindS (stdin_write pid cmd) (\<lambda>u. stdin_flush pid))"

definition readline :: "simulator \<Rightarrow> world \<Rightarrow> (exn + string) \<times> world" where
  "readline s = with_worker s stdout_readline"

definition recv :: "simulator \<Rightarrow> world \<Rightarrow> (exn + string) \<times> world" where
  "recv s =
     bindS (readline s) (\<lambda>raw.
       let line = rstrip raw
       in if startswith line ''ERR '' then liftE (Inl (SimulationError (drop 4 line)))
          else liftE (Inr line))"

text \<open>
  \<^verbatim>\<open>out[i] = values\<close> on a matrix with \<open>k\<close> columns: \<open>k\<close> values fill the row, a single
  value is broadcast to the whole row, and any other number of values is a
  \<^verbatim>\<open>ValueError\<close>.
\<close>

definition assign_row :: "nat \<Rightarrow> npdouble list \<Rightarrow> exn + npdouble list" where
  "assign_row k vs =
     (if length vs = k then Inr vs
      else if length vs = 1 then Inr (replicate k (hd vs))
      else Inl ValueError)"

definition read_row :: "simulator \<Rightarrow> nat \<Rightarrow> world \<Rightarrow> (exn + npdouble list) \<times> world" where
  "read_row s k =
     bindS (readline s) (\<lambda>raw.
       liftE (bindE (mapE np_double (split_sp (rstrip raw))) (assign_row k)))"

primrec states_loop :: "simulator \<Rightarrow> nat \<Rightarrow> world \<Rightarrow> (exn + npdouble list list) \<times> world" where
  "states_loop s 0 = liftE (Inr [])"
| "states_loop s (Suc n) =
     bindS (read_row s 3) (\<lambda>row.
     bindS (states_loop s n) (\<lambda>rows. liftE (Inr (row # rows))))"

text \<open>\<^verbatim>\<open>np.zeros((state_num, 3))\<close> raises \<^verbatim>\<open>ValueError\<close> on a negative dimension.\<close>

definition recv_states :: "simulator \<Rightarrow> int \<Rightarrow> world \<Rightarrow> (exn + npdouble list list) \<times> world" where
  "recv_states s state_num =
     (if state_num < 0 then liftE (Inl ValueError) else states_loop s (nat state_num))"

primrec write_cars :: "nat \<Rightarrow> pyval list \<Rightarrow> world \<Rightarrow> (exn + unit) \<times> world" where
  "write_cars pid [] = liftE (Inr ())"
| "write_cars pid (c # cs) =
     bindS (liftE (bindE (unpack5 c) (\<lambda>(fw, us, ls, lw, rw). car_spec fw us ls lw rw)))
       (\<lambda>spec.
     bindS (stdin_write pid spec) (\<lambda>u. write_cars pid cs))"

definition send_race :: "simulator \<Rightarrow> pyval \<Rightarrow> world \<Rightarrow> (exn + unit) \<times> world" where
  "send_race s cars =
     with_worker s (\<lambda>pid.
       bindS (liftE (len cars)) (\<lambda>n.
       bindS (stdin_write pid (''RACE '' @ str_nat n)) (\<lambda>u.
       bindS (write_cars pid (items cars)) (\<lambda>u. stdin_flush pid))))"

primrec scores_loop :: "simulator \<Rightarrow> nat \<Rightarrow> world \<Rightarrow> (exn + npdouble list list) \<times> world" where
  "scores_loop s 0 = liftE (Inr [])"
| "scores_loop s (Suc n) =
     bindS (read_row s 2) (\<lambda>row.
     bindS (scores_loop s n) (\<lambda>rows. liftE (Inr (row # rows))))"

definition recv_scores :: "simulator \<Rightarrow> nat \<Rightarrow> world \<Rightarrow> (exn + npdouble list list) \<times> world" where
  "recv_scores s car_num =
     bindS (recv s) (\<lambda>head.
     bindS (liftE (mapE np_double (split_sp head))) (\<lambda>vals.
     bindS (liftE (if car_num = 0 then Inl IndexError else assign_row 2 vals)) (\<lambda>row.
     bindS (scores_loop s (car_num - 1)) (\<lambda>rows. liftE (Inr (row # rows))))))"


subsection \<open>The three methods, before and after decoration\<close>

definition simulate_attempt ::
  "pyval \<Rightarrow> pyval \<Rightarrow> pyval \<Rightarrow> pyval \<Rightarrow> pyval \<Rightarrow> simulator \<Rightarrow> world
    \<Rightarrow> (exn + pyresult) \<times> simulator \<times> world" where
  "simulate_attempt frame_width upper_shape lower_shape left_wheel right_wheel s =
     keep_self
      (bindS (liftE (check_num ''frame_width'' frame_width)) (\<lambda>u.
       bindS (liftE (check_nums ''upper_shape'' 5 upper_shape)) (\<lambda>u.
       bindS (liftE (check_nums ''lower_shape'' 5 lower_shape)) (\<lambda>u.
       bindS (liftE (check_nums ''left_wheel'' 2 left_wheel)) (\<lambda>u.
       bindS (liftE (check_nums ''right_wheel'' 2 right_wheel)) (\<lambda>u.
       bindS (liftE (car_spec frame_width upper_shape lower_shape left_wheel right_wheel))
         (\<lambda>spec.
       bindS (send s (''SIM'' @ spec)) (\<lambda>u.
       bindS (recv s) (\<lambda>line.
       bindS (liftE (int_of_str line)) (\<lambda>state_num.
       bindS (recv_states s state_num) (\<lambda>rows. liftE (Inr (Matrix rows)))))))))))))
      s"

definition race_attempt ::
  "pyval \<Rightarrow> simulator \<Rightarrow> world \<Rightarrow> (exn + pyresult) \<times> simulator \<times> world" where
  "race_attempt cars s =
     keep_self
      (bindS (liftE (check_cars cars)) (\<lambda>u.
       bindS (send_race s cars) (\<lambda>u.
       bindS (liftE (len cars)) (\<lambda>n.
       bindS (recv_scores s n) (\<lambda>rows. liftE (Inr (Matrix rows)))))))
      s"

definition new_track_attempt ::
  "simulator \<Rightarrow> world \<Rightarrow> (exn + pyresult) \<times> simulator \<times> world" where
  "new_track_attempt s =
     keep_self
      (bindS (with_worker s (\<lambda>pid. stdin_write pid (''TRACK'' @ [CHR 0x0A]))) (\<lambda>u.
       bindS (with_worker s stdin_flush) (\<lambda>u.
       bindS (recv s) (\<lambda>line.
         if line \<noteq> ''DONE''
         then liftE (Inl (SimulatorError
                (''the simulator was not able to generate a new track '' @ frown)))
         else liftE (Inr PyNone)))))
      s"

definition Simulator_simulate ::
  "pyval \<Rightarrow> pyval \<Rightarrow> pyval \<Rightarrow> pyval \<Rightarrow> pyval \<Rightarrow> simulator \<Rightarrow> world
    \<Rightarrow> (exn + pyresult) \<times> simulator \<times> world" where
  "Simulator_simulate frame_width upper_shape lower_shape left_wheel right_wheel =
     restart_on_broken_pipe
       (simulate_attempt frame_width upper_shape lower_shape left_wheel right_wheel)"

definition Simulator_race ::
  "pyval \<Rightarrow> simulator \<Rightarrow> world \<Rightarrow> (exn + pyresult) \<times> simulator \<times> world" where
  "Simulator_race cars = restart_on_broken_pipe (race_attempt cars)"

definition Simulator_new_track ::
  "simulator \<Rightarrow> world \<Rightarrow> (exn + pyresult) \<times> simulator \<times> world" where
  "Simulator_new_track = restart_on_broken_pipe new_track_attempt"


subsection \<open>The functions of the module\<close>

text \<open>
  The module keeps one \<^verbatim>\<open>Simulator\<close> in the global \<^verbatim>\<open>_simulator\<close>; here it is passed
  in and out. The function \<^verbatim>\<open>simulate\<close> calls the method and has no \<^verbatim>\<open>return\<close>
  statement; \<^verbatim>\<open>race\<close> and \<^verbatim>\<open>new_track\<close> return what the method returns.
\<close>

definition simulate ::
  "pyval \<Rightarrow> pyval \<Rightarrow> pyval \<Rightarrow> pyval \<Rightarrow> pyval \<Rightarrow> simulator \<Rightarrow> world
    \<Rightarrow> (exn + pyresult) \<times> simulator \<times> world" where
  "simulate frame_width upper_shape lower_shape left_wheel right_wheel s w =
     (case Simulator_simulate frame_width upper_shape lower_shape left_wheel right_wheel s w of
        (Inl e, s1, w1) \<Rightarrow> (Inl e, s1, w1)
      | (Inr r, s1, w1) \<Rightarrow> (Inr PyNone, s1, w1))"

definition race :: "pyval \<Rightarrow> simulator \<Rightarrow> world \<Rightarrow> (exn + pyresult) \<times> simulator \<times> world" where
  "race cars = Simulator_race cars"

definition new_track :: "simulator \<Rightarrow> world \<Rightarrow> (exn + pyresult) \<times> simulator \<times> world" where
  "new_track = Simulator_new_track"


section \<open>Notions used in the statements\<close>

text \<open>The line that the next \<^verbatim>\<open>readline\<close> on a process returns.\<close>

definition next_line :: "proc \<Rightarrow> string" where
  "next_line p = (case stdout_lines p of [] \<Rightarrow> [] | l # ls \<Rightarrow> l)"



text \<open>
  The three public operations as one type, so that a statement can speak of all of
  them: \<open>attempt\<close> is the body of the method, \<open>decorated\<close> the decorated method, and
  \<open>public\<close> the function of the module.
\<close>

datatype call = Simulate pyval pyval pyval pyval pyval | Race pyval | NewTrack

fun attempt :: "call \<Rightarrow> simulator \<Rightarrow> world \<Rightarrow> (exn + pyresult) \<times> simulator \<times> world" where
  "attempt (Simulate fw us ls lw rw) = simulate_attempt fw us ls lw rw"
| "attempt (Race cars) = race_attempt cars"
| "attempt NewTrack = new_track_attempt"

fun decorated :: "call \<Rightarrow> simulator \<Rightarrow> world \<Rightarrow> (exn + pyresult) \<times> simulator \<times> world" where
  "decorated (Simulate fw us ls lw rw) = Simulator_simulate fw us ls lw rw"
| "decorated (Race cars) = Simulator_race cars"
| "decorated NewTrack = Simulator_new_track"

fun public :: "call \<Rightarrow> simulator \<Rightarrow> world \<Rightarrow> (exn + pyresult) \<times> simulator \<times> world" where
  "public (Simulate fw us ls lw rw) = simulate fw us ls lw rw"
| "public (Race cars) = race cars"
| "public NewTrack = new_track"

text \<open>
  A step that relates the world before to the world after by \<open>R\<close>, whatever it
  returns or raises.
\<close>

definition keeps :: "(world \<Rightarrow> world \<Rightarrow> bool) \<Rightarrow> (world \<Rightarrow> (exn + 'a) \<times> world) \<Rightarrow> bool" where
  "keeps R m = (\<forall>w. R w (snd (m w)))"

text \<open>A relation that every step on the pipes of a worker keeps.\<close>

definition frame :: "(world \<Rightarrow> world \<Rightarrow> bool) \<Rightarrow> bool" where
  "frame R =
     ((\<forall>a. R a a) \<and> (\<forall>a b c. R a b \<longrightarrow> R b c \<longrightarrow> R a c)
      \<and> (\<forall>pid t. keeps R (stdin_write pid t))
      \<and> (\<forall>pid. keeps R (stdin_flush pid))
      \<and> (\<forall>pid. keeps R (stdout_readline pid)))"

definition same_calls :: "world \<Rightarrow> world \<Rightarrow> bool" where
  "same_calls w w1 = (popen_calls w1 = popen_calls w)"

text \<open>
  A small world for the examples: the program starts every time; a worker prints the
  given lines, never breaks its pipe before the given number of flushes, and exits
  within the given time.
\<close>

definition a_worker :: "nat option \<Rightarrow> string list \<Rightarrow> nat option \<Rightarrow> proc" where
  "a_worker b ls d =
     \<lparr>argv = [], running = False, killed = False, stdin_closed = False, stdin_buffer = [],
      received = [], breaks_after = b, stdout_closed = False, stdout_lines = ls,
      exits_within = d\<rparr>"

definition a_world :: "(nat \<Rightarrow> proc option) \<Rightarrow> world" where
  "a_world f =
     \<lparr>procs = (\<lambda>k. a_worker None [] None), popen_calls = 0, launch = f,
      entropy = (\<lambda>k. 7), draws = 0, exit_hooks = 0\<rparr>"

text \<open>The same world after the first worker has been started on port 1032.\<close>

definition started :: "(nat \<Rightarrow> proc option) \<Rightarrow> proc \<Rightarrow> world" where
  "started f p =
     \<lparr>procs = (\<lambda>k. a_worker None [] None)
        (0 := p\<lparr>argv := [''./carsim'', ''1032''], running := True\<rparr>),
      popen_calls = 1, launch = f, entropy = (\<lambda>k. 7), draws = 1, exit_hooks = 1\<rparr>"

definition sim0 :: simulator where
  "sim0 = \<lparr>worker = Some 0, port = 1032\<rparr>"


text \<open>
  What the interface asks of a car: a frame width that is a number, and four containers
  of 5, 5, 2 and 2 numbers.
\<close>

definition numbers :: "nat \<Rightarrow> pyval \<Rightarrow> bool" where
  "numbers n v = (has_len v \<and> length (items v) = n \<and> list_all is_num (items v))"

definition valid_car :: "pyval \<Rightarrow> bool" where
  "valid_car c =
     (has_len c \<and>
      (case items c of
         [fw, us, ls, lw, rw] \<Rightarrow>
           is_num fw \<and> numbers 5 us \<and> numbers 5 ls \<and> numbers 2 lw \<and> numbers 2 rw
       | _ \<Rightarrow> False))"

text \<open>What has been written to a process has only got longer.\<close>

definition grows :: "nat \<Rightarrow> world \<Rightarrow> world \<Rightarrow> bool" where
  "grows pid w w1 = (\<exists>t. written (procs w1 pid) = written (procs w pid) @ t)"

text \<open>A car of integers, and a worker that announces one state and prints it.\<close>

definition a_car :: "pyval list" where
  "a_car =
     [PyInt 1, PySeq [PyInt 0, PyInt 0, PyInt 0, PyInt 0, PyInt 0],
      PySeq [PyInt 2, PyInt 2, PyInt 2, PyInt 2, PyInt 2],
      PySeq [PyInt 0, PyInt 0], PySeq [PyInt 3, PyInt 0]]"

definition one_state :: world where
  "one_state = started (\<lambda>k. None) (a_worker None [''1'' @ [CHR 0x0A], ''0 0 0'' @ [CHR 0x0A]] None)"

text \<open>A world whose first worker has a broken pipe and whose next one answers.\<close>

definition broken_then_fine :: world where
  "broken_then_fine =
     started (\<lambda>k. Some (a_worker None [''DONE''] None)) (a_worker (Some 0) [] None)"


section \<open>Basic facts\<close>

lemma bindE_simps [simp]:
  "bindE (Inl e) f = Inl e"
  "bindE (Inr x) f = f x"
  by (simp_all add: bindE_def)

lemma bindS_Inl [simp]: "m w = (Inl e, w1) \<Longrightarrow> bindS m f w = (Inl e, w1)"
  by (simp add: bindS_def)

lemma bindS_Inr [simp]: "m w = (Inr x, w1) \<Longrightarrow> bindS m f w = f x w1"
  by (simp add: bindS_def)

lemma liftE_apply [simp]: "liftE r w = (r, w)"
  by (simp add: liftE_def)

lemma set_proc_fields [simp]:
  "procs (set_proc pid p w) = (procs w)(pid := p)"
  "popen_calls (set_proc pid p w) = popen_calls w"
  "launch (set_proc pid p w) = launch w"
  "entropy (set_proc pid p w) = entropy w"
  "draws (set_proc pid p w) = draws w"
  "exit_hooks (set_proc pid p w) = exit_hooks w"
  by (simp_all add: set_proc_def)

lemma set_proc_twice [simp]: "set_proc pid p (set_proc pid q w) = set_proc pid p w"
  by (simp add: set_proc_def)

lemma set_proc_same [simp]: "set_proc pid (procs w pid) w = w"
  by (simp add: set_proc_def)

lemma close_stdin_fields [simp]:
  "running (close_stdin p) = running p"
  "killed (close_stdin p) = killed p"
  "exits_within (close_stdin p) = exits_within p"
  by (simp_all add: close_stdin_def deliver_def)

lemma decorator_passes:
  "fst (m s w) \<noteq> Inl BrokenPipeError \<Longrightarrow> restart_on_broken_pipe m s w = m s w"
  by (auto simp add: restart_on_broken_pipe_def split: prod.splits sum.splits exn.splits)


subsection \<open>Stopping and restarting\<close>

text \<open>
  With a worker held, \<^verbatim>\<open>_shutdown\<close> does not raise and leaves that process dead; the
  process was killed if and only if it was running and would not exit within 10.
\<close>

lemma shutdown_worker:
  assumes "worker s = Some pid"
  shows "\<exists>p. shutdown s w = (Inr (), set_proc pid p w) \<and> \<not> running p
     \<and> (killed p \<longleftrightarrow>
          killed (procs w pid)
          \<or> running (procs w pid)
             \<and> (\<forall>d. exits_within (procs w pid) = Some d \<longrightarrow> 10 < d))"
proof (cases "running (procs w pid)")
  case False
  then show ?thesis using assms
    by (auto simp add: shutdown_def communicate_def)
next
  case True
  show ?thesis
  proof (cases "exits_within (procs w pid)")
    case None
    then show ?thesis using assms True
      by (auto simp add: shutdown_def communicate_def kill_def)
  next
    case (Some d)
    then show ?thesis using assms True
      by (cases "d \<le> 10") (auto simp add: shutdown_def communicate_def kill_def)
  qed
qed

lemma restart_after_shutdown:
  "restart s w =
     (let w1 = (if worker s \<noteq> None then snd (shutdown s w) else w);
          r = 1025 + entropy w1 (draws w1) mod 64511;
          k = popen_calls w1;
          w2 = w1\<lparr>draws := Suc (draws w1), popen_calls := Suc k\<rparr>
      in case launch w1 k of
           None \<Rightarrow>
             (Inl (SimulatorError
                (''There was an unexpected error starting the simulator '' @ frown)),
              s\<lparr>port := r\<rparr>, w2)
         | Some p \<Rightarrow>
             (Inr (), s\<lparr>port := r, worker := Some k\<rparr>,
              set_proc k (p\<lparr>argv := [''./carsim'', str_nat r], running := True,
                            killed := False, stdin_closed := False, stdin_buffer := [],
                            received := [], stdout_closed := False\<rparr>) w2))"
proof (cases "worker s")
  case None
  then show ?thesis
    by (simp add: restart_def randint_def Popen_def Let_def split: option.split)
next
  case (Some pid)
  from shutdown_worker [OF Some, of w] obtain p where
    "shutdown s w = (Inr (), set_proc pid p w)" by blast
  with Some show ?thesis
    by (simp add: restart_def randint_def Popen_def Let_def split: option.split)
qed


subsection \<open>Reading and writing\<close>

lemma rstrip_prefix: "\<exists>t. l = rstrip l @ t"
proof -
  have e: "takeWhile isspace (rev l) @ dropWhile isspace (rev l) = rev l"
    by (rule takeWhile_dropWhile_id)
  have "l = rev (rev l)" by simp
  then have "l = rev (takeWhile isspace (rev l) @ dropWhile isspace (rev l))"
    by (simp only: e)
  then have "l = rstrip l @ rev (takeWhile isspace (rev l))"
    by (simp only: rev_append rstrip_def)
  then show ?thesis ..
qed

lemma startswith_rstrip: "startswith (rstrip l) p \<Longrightarrow> startswith l p"
proof -
  assume a: "startswith (rstrip l) p"
  obtain t where l: "l = rstrip l @ t" using rstrip_prefix by blast
  from a have "length (take (length p) (rstrip l)) = length p"
    by (simp add: startswith_def)
  then have "length p \<le> length (rstrip l)" by simp
  with a have "take (length p) (rstrip l @ t) = p" by (simp add: startswith_def)
  with l show ?thesis by (simp add: startswith_def)
qed

lemma readline_next:
  "worker s = Some pid \<Longrightarrow> \<not> stdout_closed (procs w pid) \<Longrightarrow>
   \<exists>w1. readline s w = (Inr (next_line (procs w pid)), w1)
     \<and> popen_calls w1 = popen_calls w"
  by (cases "stdout_lines (procs w pid)")
     (simp_all add: readline_def with_worker_def stdout_readline_def next_line_def)

lemma stdin_write_open:
  "\<not> stdin_closed (procs w pid) \<Longrightarrow>
   stdin_write pid t w =
     (Inr (), set_proc pid ((procs w pid)\<lparr>stdin_buffer := stdin_buffer (procs w pid) @ t\<rparr>) w)"
  by (simp add: stdin_write_def Let_def)

lemma stdin_flush_open:
  assumes "\<not> stdin_closed (procs w pid)" and "breaks_after (procs w pid) \<noteq> Some 0"
  shows "\<exists>q. stdin_flush pid w = (Inr (), set_proc pid q w)
     \<and> stdout_lines q = stdout_lines (procs w pid)
     \<and> stdout_closed q = stdout_closed (procs w pid)
     \<and> written q = written (procs w pid)"
proof (cases "stdin_buffer (procs w pid) = []")
  case True
  with assms have "stdin_flush pid w = (Inr (), set_proc pid (procs w pid) w)"
    by (simp add: stdin_flush_def Let_def)
  then show ?thesis by blast
next
  case False
  show ?thesis
  proof (cases "breaks_after (procs w pid)")
    case None
    with assms False have
      "stdin_flush pid w = (Inr (), set_proc pid (deliver (procs w pid)) w)"
      by (simp add: stdin_flush_def Let_def)
    then show ?thesis by (auto simp add: deliver_def written_def)
  next
    case (Some k)
    with assms obtain j where "k = Suc j" by (cases k) auto
    with assms False Some have
      "stdin_flush pid w =
         (Inr (), set_proc pid ((deliver (procs w pid))\<lparr>breaks_after := Some j\<rparr>) w)"
      by (simp add: stdin_flush_def Let_def)
    then show ?thesis by (auto simp add: deliver_def written_def)
  qed
qed


section \<open>The supervisor\<close>






section \<open>Failures of the simulator itself\<close>

text \<open>
  Claim C10. When the executable cannot be started, \<^verbatim>\<open>_restart\<close> raises
  \<^verbatim>\<open>SimulatorError\<close>. When the request of \<^verbatim>\<open>new_track\<close> has been written and the reply
  line is neither \<^verbatim>\<open>DONE\<close> (up to trailing whitespace) nor begins with \<^verbatim>\<open>ERR \<close>,
  \<^verbatim>\<open>new_track\<close> raises \<^verbatim>\<open>SimulatorError\<close> as well; the two differ in the message only.
\<close>

theorem launch_and_track_failures_share_type:
  "(launch w (popen_calls w) = None \<longrightarrow>
      fst (restart s w) =
        Inl (SimulatorError (''There was an unexpected error starting the simulator '' @ frown)))
   \<and> (worker s' = Some pid \<and> \<not> stdin_closed (procs w' pid)
        \<and> breaks_after (procs w' pid) \<noteq> Some 0 \<and> \<not> stdout_closed (procs w' pid)
        \<and> rstrip (next_line (procs w' pid)) \<noteq> ''DONE''
        \<and> \<not> startswith (next_line (procs w' pid)) ''ERR '' \<longrightarrow>
      fst (new_track s' w') =
        Inl (SimulatorError (''the simulator was not able to generate a new track '' @ frown)))"
proof (intro conjI impI)
  assume no: "launch w (popen_calls w) = None"
  show "fst (restart s w) =
      Inl (SimulatorError (''There was an unexpected error starting the simulator '' @ frown))"
  proof (cases "worker s")
    case None
    with no show ?thesis by (simp add: restart_after_shutdown)
  next
    case (Some k)
    from shutdown_worker [OF Some, of w] obtain p where
      "shutdown s w = (Inr (), set_proc k p w)" by blast
    with Some no show ?thesis by (simp add: restart_after_shutdown)
  qed
next
  assume h: "worker s' = Some pid \<and> \<not> stdin_closed (procs w' pid)
        \<and> breaks_after (procs w' pid) \<noteq> Some 0 \<and> \<not> stdout_closed (procs w' pid)
        \<and> rstrip (next_line (procs w' pid)) \<noteq> ''DONE''
        \<and> \<not> startswith (next_line (procs w' pid)) ''ERR ''"
  define p where "p = procs w' pid"
  define w1 where
    "w1 = set_proc pid (p\<lparr>stdin_buffer := stdin_buffer p @ ''TRACK'' @ [CHR 0x0A]\<rparr>) w'"
  have wr: "with_worker s' (\<lambda>pid. stdin_write pid (''TRACK'' @ [CHR 0x0A])) w' = (Inr (), w1)"
    using h by (simp add: with_worker_def stdin_write_open p_def w1_def)
  have "\<not> stdin_closed (procs w1 pid)" "breaks_after (procs w1 pid) \<noteq> Some 0"
    using h by (simp_all add: w1_def p_def)
  from stdin_flush_open [OF this] obtain q where
    fl: "stdin_flush pid w1 = (Inr (), set_proc pid q w1)"
    and q: "stdout_lines q = stdout_lines p" "stdout_closed q = stdout_closed p"
    by (auto simp add: w1_def)
  define w2 where "w2 = set_proc pid q w1"
  have fl': "with_worker s' stdin_flush w1 = (Inr (), w2)"
    using h fl by (simp add: with_worker_def w2_def)
  have nl: "next_line (procs w2 pid) = next_line p" "\<not> stdout_closed (procs w2 pid)"
    using h q by (simp_all add: w2_def next_line_def p_def)
  obtain w3 where rd: "readline s' w2 = (Inr (next_line p), w3)"
    using h nl readline_next [of s' pid w2] by auto
  have "\<not> startswith (rstrip (next_line p)) ''ERR ''"
    using h startswith_rstrip [of "next_line p" "''ERR ''"] by (auto simp add: p_def)
  then have rc: "recv s' w2 = (Inr (rstrip (next_line p)), w3)"
    using rd by (simp add: recv_def Let_def bindS_def)
  have "fst (new_track_attempt s' w') =
      Inl (SimulatorError (''the simulator was not able to generate a new track '' @ frown))"
    using wr fl' rc h
    by (simp add: new_track_attempt_def keep_self_def bindS_def p_def)
  then show "fst (new_track s' w') =
      Inl (SimulatorError (''the simulator was not able to generate a new track '' @ frown))"
    by (simp add: new_track_def Simulator_new_track_def decorator_passes)
qed

theorem launch_and_track_failures_share_type_witness:
  "launch (a_world (\<lambda>k. None)) (popen_calls (a_world (\<lambda>k. None))) = None
   \<and> fst (restart \<lparr>worker = None, port = 0\<rparr> (a_world (\<lambda>k. None))) =
       Inl (SimulatorError (''There was an unexpected error starting the simulator '' @ frown))
   \<and> rstrip (next_line (procs (started (\<lambda>k. None) (a_worker None [''FAILED''] None)) 0))
       \<noteq> ''DONE''
   \<and> fst (new_track sim0 (started (\<lambda>k. None) (a_worker None [''FAILED''] None))) =
       Inl (SimulatorError (''the simulator was not able to generate a new track '' @ frown))"
proof -
  let ?w' = "started (\<lambda>k. None) (a_worker None [''FAILED''] None)"
  have a: "launch (a_world (\<lambda>k. None)) (popen_calls (a_world (\<lambda>k. None))) = None"
    by (simp add: a_world_def)
  have b: "worker sim0 = Some 0 \<and> \<not> stdin_closed (procs ?w' 0)
        \<and> breaks_after (procs ?w' 0) \<noteq> Some 0 \<and> \<not> stdout_closed (procs ?w' 0)
        \<and> rstrip (next_line (procs ?w' 0)) \<noteq> ''DONE''
        \<and> \<not> startswith (next_line (procs ?w' 0)) ''ERR ''"
    by (simp add: sim0_def started_def a_worker_def next_line_def rstrip_def isspace_def
        startswith_def)
  show ?thesis
    using launch_and_track_failures_share_type
      [of "a_world (\<lambda>k. None)" "\<lparr>worker = None, port = 0\<rparr>" sim0 0 ?w'] a b
    by simp
qed


subsection \<open>What every attempt leaves unchanged\<close>

lemma keep_self_eq: "keep_self m s w = (fst (m w), s, snd (m w))"
  by (simp add: keep_self_def split_beta)

lemma keeps_liftE: "frame R \<Longrightarrow> keeps R (liftE r)"
  by (simp add: keeps_def frame_def)

lemma keeps_bindS:
  assumes R: "frame R" and m: "keeps R m" and f: "\<And>x. keeps R (f x)"
  shows "keeps R (bindS m f)"
proof (unfold keeps_def, rule allI)
  fix w
  obtain r w1 where mw: "m w = (r, w1)" by (cases "m w")
  have r1: "R w w1" using m mw by (auto simp add: keeps_def dest: spec [of _ w])
  have trans: "\<And>a b c. R a b \<Longrightarrow> R b c \<Longrightarrow> R a c"
    using R unfolding frame_def by blast
  show "R w (snd (bindS m f w))"
  proof (cases r)
    case (Inl e)
    then show ?thesis using mw r1 by (simp add: bindS_def)
  next
    case (Inr x)
    have "R w1 (snd (f x w1))" using f [of x] by (simp add: keeps_def)
    with r1 have "R w (snd (f x w1))" by (rule trans)
    then show ?thesis using Inr mw by (simp add: bindS_def)
  qed
qed

lemma keeps_with_worker:
  "frame R \<Longrightarrow> (\<And>pid. keeps R (f pid)) \<Longrightarrow> keeps R (with_worker s f)"
  by (simp add: keeps_def with_worker_def frame_def split: option.splits)

lemma keeps_write: "frame R \<Longrightarrow> keeps R (stdin_write pid t)"
  by (simp add: frame_def)

lemma keeps_flush: "frame R \<Longrightarrow> keeps R (stdin_flush pid)"
  by (simp add: frame_def)

lemma keeps_send: "frame R \<Longrightarrow> keeps R (send s cmd)"
  unfolding send_def
  by (intro keeps_with_worker keeps_bindS keeps_write keeps_flush)

lemma keeps_readline: "frame R \<Longrightarrow> keeps R (readline s)"
  unfolding readline_def
  by (rule keeps_with_worker) (simp_all add: frame_def)

lemma keeps_recv: "frame R \<Longrightarrow> keeps R (recv s)"
  unfolding recv_def Let_def
  by (intro keeps_bindS keeps_readline) (simp_all add: keeps_liftE)

lemma keeps_read_row: "frame R \<Longrightarrow> keeps R (read_row s k)"
  unfolding read_row_def
  by (intro keeps_bindS keeps_readline keeps_liftE)

lemma keeps_states_loop: "frame R \<Longrightarrow> keeps R (states_loop s n)"
  by (induction n) (simp_all add: keeps_liftE keeps_bindS keeps_read_row)

lemma keeps_scores_loop: "frame R \<Longrightarrow> keeps R (scores_loop s n)"
  by (induction n) (simp_all add: keeps_liftE keeps_bindS keeps_read_row)

lemma keeps_recv_states: "frame R \<Longrightarrow> keeps R (recv_states s n)"
  by (simp add: recv_states_def keeps_liftE keeps_states_loop)

lemma keeps_recv_scores: "frame R \<Longrightarrow> keeps R (recv_scores s n)"
  unfolding recv_scores_def
  by (intro keeps_bindS keeps_recv keeps_liftE keeps_scores_loop)

lemma keeps_write_cars: "frame R \<Longrightarrow> keeps R (write_cars pid cs)"
  by (induction cs) (simp_all add: keeps_liftE keeps_bindS keeps_write)

lemma keeps_send_race: "frame R \<Longrightarrow> keeps R (send_race s cars)"
  unfolding send_race_def
  by (intro keeps_with_worker keeps_bindS keeps_write keeps_flush keeps_liftE keeps_write_cars)

lemma keeps_attempt:
  assumes "frame R"
  shows "R w (snd (snd (attempt c s w)))"
proof -
  have sim: "\<And>fw us ls lw rw. keeps R
      (bindS (liftE (check_num ''frame_width'' fw)) (\<lambda>u.
       bindS (liftE (check_nums ''upper_shape'' 5 us)) (\<lambda>u.
       bindS (liftE (check_nums ''lower_shape'' 5 ls)) (\<lambda>u.
       bindS (liftE (check_nums ''left_wheel'' 2 lw)) (\<lambda>u.
       bindS (liftE (check_nums ''right_wheel'' 2 rw)) (\<lambda>u.
       bindS (liftE (car_spec fw us ls lw rw)) (\<lambda>spec.
       bindS (send s (''SIM'' @ spec)) (\<lambda>u.
       bindS (recv s) (\<lambda>line.
       bindS (liftE (int_of_str line)) (\<lambda>state_num.
       bindS (recv_states s state_num) (\<lambda>rows. liftE (Inr (Matrix rows)))))))))))))"
    by (intro keeps_bindS keeps_liftE keeps_send keeps_recv keeps_recv_states assms)
  have rac: "\<And>cars. keeps R
      (bindS (liftE (check_cars cars)) (\<lambda>u.
       bindS (send_race s cars) (\<lambda>u.
       bindS (liftE (len cars)) (\<lambda>n.
       bindS (recv_scores s n) (\<lambda>rows. liftE (Inr (Matrix rows)))))))"
    by (intro keeps_bindS keeps_liftE keeps_send_race keeps_recv_scores assms)
  have trk: "keeps R
      (bindS (with_worker s (\<lambda>pid. stdin_write pid (''TRACK'' @ [CHR 0x0A]))) (\<lambda>u.
       bindS (with_worker s stdin_flush) (\<lambda>u.
       bindS (recv s) (\<lambda>line.
         if line \<noteq> ''DONE''
         then liftE (Inl (SimulatorError
                (''the simulator was not able to generate a new track '' @ frown)))
         else liftE (Inr PyNone)))))"
    by (intro keeps_bindS keeps_with_worker keeps_write keeps_flush keeps_recv assms)
       (simp_all add: keeps_liftE assms)
  show ?thesis
  proof (cases c)
    case (Simulate fw us ls lw rw)
    then show ?thesis using sim [of fw us ls lw rw]
      by (simp add: simulate_attempt_def keep_self_eq keeps_def)
  next
    case (Race cars)
    then show ?thesis using rac [of cars]
      by (simp add: race_attempt_def keep_self_eq keeps_def)
  next
    case NewTrack
    then show ?thesis using trk
      by (simp add: new_track_attempt_def keep_self_eq keeps_def)
  qed
qed

lemma attempt_self: "fst (snd (attempt c s w)) = s"
  by (cases c) (simp_all add: simulate_attempt_def race_attempt_def new_track_attempt_def
      keep_self_eq)

lemma frame_same_calls: "frame same_calls"
  by (simp add: frame_def keeps_def same_calls_def stdin_write_def stdin_flush_def
      stdout_readline_def Let_def split: option.splits nat.splits list.splits)

lemma attempt_calls: "popen_calls (snd (snd (attempt c s w))) = popen_calls w"
  using keeps_attempt [OF frame_same_calls, of w c s] by (simp add: same_calls_def)

lemma decorated_eq: "decorated c = restart_on_broken_pipe (attempt c)"
  by (cases c) (simp_all add: Simulator_simulate_def Simulator_race_def
      Simulator_new_track_def)

lemma public_decorated:
  "snd (public c s w) = snd (decorated c s w)
   \<and> (\<forall>e. fst (public c s w) = Inl e \<longleftrightarrow> fst (decorated c s w) = Inl e)"
  by (cases c) (auto simp add: simulate_def race_def new_track_def
      split: prod.splits sum.splits)

lemma shutdown_calls:
  "popen_calls (if worker s \<noteq> None then snd (shutdown s w) else w) = popen_calls w"
proof (cases "worker s")
  case None
  then show ?thesis by simp
next
  case (Some pid)
  from shutdown_worker [OF Some, of w] obtain p where
    "shutdown s w = (Inr (), set_proc pid p w)" by blast
  with Some show ?thesis by simp
qed

lemma restart_outcome:
  "\<exists>s2 w2. popen_calls w2 = Suc (popen_calls w)
     \<and> (restart s w =
          (Inl (SimulatorError
             (''There was an unexpected error starting the simulator '' @ frown)), s2, w2)
        \<or> restart s w = (Inr (), s2, w2) \<and> worker s2 = Some (popen_calls w))"
proof -
  define w1 where "w1 = (if worker s \<noteq> None then snd (shutdown s w) else w)"
  have calls: "popen_calls w1 = popen_calls w"
    unfolding w1_def by (rule shutdown_calls)
  show ?thesis
    unfolding restart_after_shutdown w1_def [symmetric] Let_def calls
    by (cases "launch w1 (popen_calls w)") simp_all
qed


section \<open>The decorator\<close>

text \<open>
  Claim C1, for each of the three public operations. If the first attempt raises
  anything but \<^verbatim>\<open>BrokenPipeError\<close> (or returns), that is the outcome of the call, and
  no process has been started. If it raises \<^verbatim>\<open>BrokenPipeError\<close>, then \<^verbatim>\<open>_restart\<close> is
  run once, from the state the failed attempt left: exactly one more process start is
  attempted during the whole call. If that start fails, its \<^verbatim>\<open>SimulatorError\<close> is the
  outcome and there is no second attempt. Otherwise the outcome of the call is the
  outcome of one more attempt with the same arguments on the new worker, whatever it
  is, a second \<^verbatim>\<open>BrokenPipeError\<close> included. The function of the module raises what
  the method raises and leaves the same state.
\<close>

theorem restart_once_then_retry_once:
  "(fst (attempt c s w) \<noteq> Inl BrokenPipeError \<longrightarrow>
      decorated c s w = attempt c s w
      \<and> popen_calls (snd (snd (decorated c s w))) = popen_calls w)
   \<and> (attempt c s w = (Inl BrokenPipeError, s1, w1) \<longrightarrow>
      popen_calls (snd (snd (restart s1 w1))) = Suc (popen_calls w)
      \<and> popen_calls (snd (snd (decorated c s w))) = Suc (popen_calls w)
      \<and> (\<forall>e s2 w2. restart s1 w1 = (Inl e, s2, w2) \<longrightarrow>
            decorated c s w = (Inl e, s2, w2)
            \<and> e = SimulatorError
                  (''There was an unexpected error starting the simulator '' @ frown))
      \<and> (\<forall>u s2 w2. restart s1 w1 = (Inr u, s2, w2) \<longrightarrow>
            worker s2 = Some (popen_calls w)
            \<and> decorated c s w = attempt c s2 w2))
   \<and> snd (public c s w) = snd (decorated c s w)
   \<and> (\<forall>e. fst (public c s w) = Inl e \<longleftrightarrow> fst (decorated c s w) = Inl e)"
proof (intro conjI impI)
  assume "fst (attempt c s w) \<noteq> Inl BrokenPipeError"
  then show "decorated c s w = attempt c s w"
    by (simp add: decorated_eq decorator_passes)
  then show "popen_calls (snd (snd (decorated c s w))) = popen_calls w"
    by (simp add: attempt_calls)
next
  assume a: "attempt c s w = (Inl BrokenPipeError, s1, w1)"
  have w1: "popen_calls w1 = popen_calls w"
    using attempt_calls [of c s w] a by simp
  from restart_outcome [of w1 s1] obtain s2 w2 where
    calls2: "popen_calls w2 = Suc (popen_calls w)"
    and r: "restart s1 w1 =
          (Inl (SimulatorError
             (''There was an unexpected error starting the simulator '' @ frown)), s2, w2)
        \<or> restart s1 w1 = (Inr (), s2, w2) \<and> worker s2 = Some (popen_calls w)"
    unfolding w1 by blast
  have m: "decorated c s w =
      (case restart s1 w1 of (Inl e, s2, w2) \<Rightarrow> (Inl e, s2, w2)
       | (Inr u, s2, w2) \<Rightarrow> attempt c s2 w2)"
    using a by (simp add: decorated_eq restart_on_broken_pipe_def)
  show "popen_calls (snd (snd (restart s1 w1))) = Suc (popen_calls w)"
    using r calls2 by auto
  show "popen_calls (snd (snd (decorated c s w))) = Suc (popen_calls w)"
    using r calls2 m by (auto simp add: attempt_calls)
  show "\<forall>e s2 w2. restart s1 w1 = (Inl e, s2, w2) \<longrightarrow>
            decorated c s w = (Inl e, s2, w2)
            \<and> e = SimulatorError
                  (''There was an unexpected error starting the simulator '' @ frown)"
    using r m by auto
  show "\<forall>u s2 w2. restart s1 w1 = (Inr u, s2, w2) \<longrightarrow>
            worker s2 = Some (popen_calls w) \<and> decorated c s w = attempt c s2 w2"
    using r m by auto
next
  show "snd (public c s w) = snd (decorated c s w)"
    using public_decorated by blast
  show "\<forall>e. (fst (public c s w) = Inl e) = (fst (decorated c s w) = Inl e)"
    using public_decorated by blast
qed

lemmas run_defs =
  restart_after_shutdown shutdown_def communicate_def close_stdin_def kill_def deliver_def
  keep_self_def bindS_def with_worker_def stdin_write_def stdin_flush_def
  recv_def readline_def stdout_readline_def send_def
  rstrip_def isspace_def startswith_def Let_def
  started_def a_world_def a_worker_def sim0_def

lemma attempt_broken:
  "attempt NewTrack sim0 broken_then_fine =
     (Inl BrokenPipeError, sim0,
      set_proc 0 ((procs broken_then_fine 0)\<lparr>stdin_buffer := ''TRACK'' @ [CHR 0x0A]\<rparr>)
        broken_then_fine)"
  by (simp add: new_track_attempt_def broken_then_fine_def run_defs set_proc_def)

theorem restart_once_then_retry_once_witness:
  "fst (attempt NewTrack sim0 broken_then_fine) = Inl BrokenPipeError
   \<and> fst (decorated NewTrack sim0 broken_then_fine) = Inr PyNone
   \<and> popen_calls (snd (snd (decorated NewTrack sim0 broken_then_fine))) = 2
   \<and> fst (attempt NewTrack sim0 (started (\<lambda>k. None) (a_worker None [''DONE''] None)))
       \<noteq> Inl BrokenPipeError
   \<and> popen_calls (snd (snd (decorated NewTrack sim0
         (started (\<lambda>k. None) (a_worker None [''DONE''] None))))) = 1"
proof -
  let ?w1 = "set_proc 0 ((procs broken_then_fine 0)\<lparr>stdin_buffer := ''TRACK'' @ [CHR 0x0A]\<rparr>)
        broken_then_fine"
  let ?v = "started (\<lambda>k. None) (a_worker None [''DONE''] None)"
  have r: "fst (restart sim0 ?w1) = Inr ()"
    by (simp add: broken_then_fine_def run_defs)
  then have r': "restart sim0 ?w1 = (Inr (), fst (snd (restart sim0 ?w1)), snd (snd (restart sim0 ?w1)))"
    by (simp add: prod_eq_iff)
  have second: "fst (attempt NewTrack (fst (snd (restart sim0 ?w1))) (snd (snd (restart sim0 ?w1))))
      = Inr PyNone"
    by (simp add: broken_then_fine_def new_track_attempt_def run_defs)
  have first: "fst (attempt NewTrack sim0 ?v) \<noteq> Inl BrokenPipeError"
    by (simp add: new_track_attempt_def run_defs)
  have calls: "popen_calls broken_then_fine = 1" "popen_calls ?v = 1"
    by (simp_all add: broken_then_fine_def started_def)
  note thm1 = restart_once_then_retry_once [of NewTrack sim0 broken_then_fine sim0 ?w1]
  note thm2 = restart_once_then_retry_once [of NewTrack sim0 ?v sim0 ?v]
  from thm1 attempt_broken have
    retry: "\<forall>u s2 w2. restart sim0 ?w1 = (Inr u, s2, w2) \<longrightarrow>
       worker s2 = Some (popen_calls broken_then_fine)
       \<and> decorated NewTrack sim0 broken_then_fine = attempt NewTrack s2 w2"
    and twice: "popen_calls (snd (snd (decorated NewTrack sim0 broken_then_fine))) =
       Suc (popen_calls broken_then_fine)"
    by blast+
  from retry r' have
    "decorated NewTrack sim0 broken_then_fine =
       attempt NewTrack (fst (snd (restart sim0 ?w1))) (snd (snd (restart sim0 ?w1)))"
    by blast
  with second have fine: "fst (decorated NewTrack sim0 broken_then_fine) = Inr PyNone"
    by simp
  from thm2 first have once: "popen_calls (snd (snd (decorated NewTrack sim0 ?v))) = popen_calls ?v"
    by blast
  show ?thesis
    using attempt_broken fine twice first once calls by simp
qed

end
